theory Spec2Isabelle
  imports Main
begin

section \<open>Mergington High School activities API (src/app.py)\<close>

subsection \<open>Strings\<close>

text \<open>
  A Python \<open>str\<close> is a sequence of Unicode code points; \<open>len\<close> counts code points and
  \<open>==\<close> compares them one by one. A code point is a natural number, a string a list of
  them, and \<open>py\<close> reads an ASCII literal of the source.
\<close>

type_synonym codepoint = nat
type_synonym str = "codepoint list"

definition py :: "string \<Rightarrow> str" where
  "py s = map of_char s"

subsection \<open>The character classes of the \<open>re\<close> module\<close>

text \<open>
  The pattern \<open>r"^[\w\s\-']+$"\<close> is a \<open>str\<close> pattern compiled without \<open>re.ASCII\<close>, so
  \<open>\w\<close> and \<open>\s\<close> are the Unicode classes: \<open>\w\<close> is \<open>Py_UNICODE_ISALNUM(ch) || ch == '_'\<close>
  and \<open>\s\<close> is \<open>Py_UNICODE_ISSPACE(ch)\<close>. On ASCII both are fixed tables of the
  interpreter, written out below. Above ASCII they read the Unicode character database,
  which is not part of the repository: it is the parameter \<open>U\<close>, consulted only for
  code points from 128 on.
\<close>

record unicode_db =
  isalnum :: "codepoint \<Rightarrow> bool"
  isspace :: "codepoint \<Rightarrow> bool"

definition Py_UNICODE_ISALNUM :: "unicode_db \<Rightarrow> codepoint \<Rightarrow> bool" where
  "Py_UNICODE_ISALNUM U ch =
     (if ch < 128
      then (48 \<le> ch \<and> ch \<le> 57) \<or> (65 \<le> ch \<and> ch \<le> 90) \<or> (97 \<le> ch \<and> ch \<le> 122)
      else isalnum U ch)"

definition Py_UNICODE_ISSPACE :: "unicode_db \<Rightarrow> codepoint \<Rightarrow> bool" where
  "Py_UNICODE_ISSPACE U ch =
     (if ch < 128
      then (9 \<le> ch \<and> ch \<le> 13) \<or> (28 \<le> ch \<and> ch \<le> 32)
      else isspace U ch)"

text \<open>The class \<open>[\w\s\-']\<close>: a word character, whitespace, \<open>-\<close> (45) or \<open>'\<close> (39).\<close>

definition name_class :: "unicode_db \<Rightarrow> codepoint \<Rightarrow> bool" where
  "name_class U ch =
     ((Py_UNICODE_ISALNUM U ch \<or> ch = 95) \<or> Py_UNICODE_ISSPACE U ch \<or> ch = 45 \<or> ch = 39)"

text \<open>
  \<open>$\<close> without \<open>re.MULTILINE\<close> matches at the end of the string and also just before a
  newline that is the last character.
\<close>

definition at_dollar :: "str \<Rightarrow> nat \<Rightarrow> bool" where
  "at_dollar s k = (k = length s \<or> (Suc k = length s \<and> s ! k = 10))"

text \<open>
  \<open>re.match(r"^[\w\s\-']+$", name)\<close>: the repetition takes \<open>k \<ge> 1\<close> leading characters
  of the class (greedy, giving characters back on failure, so every \<open>k\<close> is tried) and
  \<open>$\<close> must then hold at position \<open>k\<close>.
\<close>

definition re_match_name :: "unicode_db \<Rightarrow> str \<Rightarrow> bool" where
  "re_match_name U s =
     list_ex (\<lambda>k. list_all (name_class U) (take k s) \<and> at_dollar s k) [1 ..< Suc (length s)]"

text \<open>
  The rows U+0080 to U+00FF of the Unicode character database, as \<open>str.isalnum\<close> and
  \<open>str.isspace\<close> report them; used as the database wherever a concrete one is needed.
  It says nothing true about code points above U+00FF.
\<close>

definition latin1_db :: unicode_db where
  "latin1_db =
     \<lparr> isalnum = (\<lambda>ch. ch \<in> {170, 178, 179, 181, 185, 186, 188, 189, 190}
                       \<or> (192 \<le> ch \<and> ch \<le> 214) \<or> (216 \<le> ch \<and> ch \<le> 246)
                       \<or> (248 \<le> ch \<and> ch \<le> 255)),
       isspace = (\<lambda>ch. ch = 133 \<or> ch = 160) \<rparr>"

subsection \<open>Exceptions and responses\<close>

text \<open>
  \<open>HTTPException(status_code, detail)\<close> is what the handlers raise; \<open>ValueError\<close> is what
  \<open>list.remove\<close> raises on a missing element. A handler returns the dictionary
  \<open>{"message": ...}\<close>.
\<close>

datatype exn = HTTPException (status_code: nat) (detail: str) | ValueError

record response =
  message :: str

subsection \<open>Name validation\<close>

definition validate_activity_name :: "unicode_db \<Rightarrow> str \<Rightarrow> exn + unit" where
  "validate_activity_name U name =
     (if \<not> (1 \<le> length name \<and> length name \<le> 100)
      then Inl (HTTPException 400 (py ''Invalid activity name length''))
      else if \<not> re_match_name U name
      then Inl (HTTPException 400 (py ''Activity name contains invalid characters''))
      else Inr ())"

text \<open>
  The character set as the specification words it: ASCII letters, digits, underscore,
  whitespace, hyphen, apostrophe.
\<close>

definition spec_name_char :: "unicode_db \<Rightarrow> codepoint \<Rightarrow> bool" where
  "spec_name_char U ch =
     ((65 \<le> ch \<and> ch \<le> 90) \<or> (97 \<le> ch \<and> ch \<le> 122) \<or> (48 \<le> ch \<and> ch \<le> 57) \<or> ch = 95
      \<or> Py_UNICODE_ISSPACE U ch \<or> ch = 45 \<or> ch = 39)"

subsection \<open>The activity store\<close>

text \<open>
  The global \<open>activities\<close> is a dictionary from activity names to activity dictionaries
  with the keys \<open>description\<close>, \<open>schedule\<close>, \<open>max_participants\<close> and \<open>participants\<close>.
  The handlers read and write the key \<open>participants\<close> only, with \<open>setdefault\<close> and
  \<open>get\<close>, so a record loaded from JSON may lack it: the field is optional. The store is
  taken to be well typed: every value is such a record and a roster is a list of strings.
\<close>

record activity =
  description :: str
  schedule :: str
  max_participants :: int
  participants :: "str list option"

type_synonym store = "str \<rightharpoonup> activity"

text \<open>The embedded defaults of lines 40 to 59.\<close>

definition default_activities :: store where
  "default_activities =
     [ py ''Chess Club'' \<mapsto>
         \<lparr> description = py ''Learn strategies and compete in chess tournaments'',
           schedule = py ''Fridays, 3:30 PM - 5:00 PM'',
           max_participants = 12,
           participants = Some [py ''michael@mergington.edu'', py ''daniel@mergington.edu''] \<rparr>,
       py ''Programming Class'' \<mapsto>
         \<lparr> description = py ''Learn programming fundamentals and build software projects'',
           schedule = py ''Tuesdays and Thursdays, 3:30 PM - 4:30 PM'',
           max_participants = 20,
           participants = Some [py ''emma@mergington.edu'', py ''sophia@mergington.edu''] \<rparr>,
       py ''Gym Class'' \<mapsto>
         \<lparr> description = py ''Physical education and sports activities'',
           schedule = py ''Mondays, Wednesdays, Fridays, 2:00 PM - 3:00 PM'',
           max_participants = 30,
           participants = Some [py ''john@mergington.edu'', py ''olivia@mergington.edu''] \<rparr> ]"

text \<open>
  Module initialisation, lines 30 to 59. The file system is the input: \<open>None\<close> when
  \<open>activities_file.exists()\<close> is false; otherwise what \<open>open\<close> and \<open>json.load\<close> do inside
  the \<open>try\<close>, either raising an \<open>Exception\<close> or returning the parsed mapping.
\<close>

datatype 'a attempt = Raised | Returned 'a

definition load_activities :: "store attempt option \<Rightarrow> store" where
  "load_activities activities_file =
     (case activities_file of
        Some (Returned loaded) \<Rightarrow> loaded
      | Some Raised \<Rightarrow> Map.empty
      | None \<Rightarrow> default_activities)"

subsection \<open>Dictionary and list primitives\<close>

text \<open>
  \<open>activity.setdefault("participants", [])\<close> returns the roster and, when the key is
  missing, first stores the default under it. \<open>activity.get("participants", [])\<close> only
  returns. \<open>participants.remove(email)\<close> deletes the first equal element and raises
  \<open>ValueError\<close> when there is none.
\<close>

definition setdefault_participants :: "activity \<Rightarrow> str list \<Rightarrow> activity \<times> str list" where
  "setdefault_participants a d =
     (case participants a of
        None \<Rightarrow> (a\<lparr>participants := Some d\<rparr>, d)
      | Some ps \<Rightarrow> (a, ps))"

definition get_participants :: "activity \<Rightarrow> str list \<Rightarrow> str list" where
  "get_participants a d = (case participants a of None \<Rightarrow> d | Some ps \<Rightarrow> ps)"

definition list_remove :: "'a list \<Rightarrow> 'a \<Rightarrow> 'a list option" where
  "list_remove xs x = (if x \<in> set xs then Some (remove1 x xs) else None)"

subsection \<open>Signing up\<close>

text \<open>The request body, a \<open>SignupRequest\<close> with its one field \<open>email\<close>.\<close>

datatype SignupRequest = SignupRequest (request_email: str)

text \<open>
  Lines 98 to 102: the body's email when the body is there and its email is truthy,
  else the query parameter when it is truthy, else \<open>None\<close>.
\<close>

definition user_email_of :: "SignupRequest option \<Rightarrow> str option \<Rightarrow> str option" where
  "user_email_of payload email =
     (if payload \<noteq> None \<and> request_email (the payload) \<noteq> [] then Some (request_email (the payload))
      else if email \<noteq> None \<and> the email \<noteq> [] then email
      else None)"

text \<open>
  The handler takes the store and returns its result with the store as the call leaves
  it, also when it raises. The roster is a list object held by the activity, so appending
  to it changes the activity inside the store.
\<close>

definition signup_for_activity ::
  "unicode_db \<Rightarrow> store \<Rightarrow> str \<Rightarrow> SignupRequest option \<Rightarrow> str option \<Rightarrow> (exn + response) \<times> store"
where
  "signup_for_activity U activities activity_name payload email =
     (case validate_activity_name U activity_name of
        Inl e \<Rightarrow> (Inl e, activities)
      | Inr _ \<Rightarrow>
          (case user_email_of payload email of
             None \<Rightarrow> (Inl (HTTPException 400 (py ''Email is required'')), activities)
           | Some user_email \<Rightarrow>
               if user_email = [] then (Inl (HTTPException 400 (py ''Email is required'')), activities)
               else
                 (case activities activity_name of
                    None \<Rightarrow> (Inl (HTTPException 404 (py ''Activity not found'')), activities)
                  | Some activity \<Rightarrow>
                      (case setdefault_participants activity [] of
                         (activity', ps) \<Rightarrow>
                           if user_email \<in> set ps
                           then (Inl (HTTPException 400 (py ''Student is already signed up'')),
                                 activities(activity_name \<mapsto> activity'))
                           else (Inr \<lparr> message = py ''Signed up '' @ user_email @ py '' for '' @ activity_name \<rparr>,
                                 activities(activity_name \<mapsto> activity'\<lparr>participants := Some (ps @ [user_email])\<rparr>))))))"

subsection \<open>Unregistering\<close>

definition unregister_from_activity ::
  "unicode_db \<Rightarrow> store \<Rightarrow> str \<Rightarrow> str \<Rightarrow> (exn + response) \<times> store"
where
  "unregister_from_activity U activities activity_name email =
     (case validate_activity_name U activity_name of
        Inl e \<Rightarrow> (Inl e, activities)
      | Inr _ \<Rightarrow>
          (case activities activity_name of
             None \<Rightarrow> (Inl (HTTPException 404 (py ''Activity not found'')), activities)
           | Some activity \<Rightarrow>
               (let ps = get_participants activity []
                in if email \<notin> set ps
                   then (Inl (HTTPException 400 (py ''Student is not signed up for this activity'')),
                         activities)
                   else
                     (case list_remove ps email of
                        None \<Rightarrow> (Inl ValueError, activities)
                      | Some ps' \<Rightarrow>
                          (Inr \<lparr> message = py ''Unregistered '' @ email @ py '' from '' @ activity_name \<rparr>,
                           activities(activity_name \<mapsto> activity\<lparr>participants := Some ps'\<rparr>))))))"

subsection \<open>The error kinds of the specification\<close>

text \<open>
  Every failure is an \<open>HTTPException\<close> with a fixed status and detail. The specification
  names them by kind; \<open>InvalidName\<close> covers the two results of name validation.
\<close>

definition InvalidName :: "exn \<Rightarrow> bool" where
  "InvalidName e =
     (e = HTTPException 400 (py ''Invalid activity name length'')
      \<or> e = HTTPException 400 (py ''Activity name contains invalid characters''))"

definition MissingEmail :: exn where
  "MissingEmail = HTTPException 400 (py ''Email is required'')"

definition ActivityNotFound :: exn where
  "ActivityNotFound = HTTPException 404 (py ''Activity not found'')"

definition AlreadySignedUp :: exn where
  "AlreadySignedUp = HTTPException 400 (py ''Student is already signed up'')"

definition NotSignedUp :: exn where
  "NotSignedUp = HTTPException 400 (py ''Student is not signed up for this activity'')"

text \<open>The invariant of the data model: no roster holds the same email twice.\<close>

definition no_duplicates :: "store \<Rightarrow> bool" where
  "no_duplicates activities =
     (\<forall>name a ps. activities name = Some a \<and> participants a = Some ps \<longrightarrow> distinct ps)"

section \<open>Properties\<close>

subsection \<open>The regular expression\<close>

lemma newline_in_class: "name_class U 10"
  by (simp add: name_class_def Py_UNICODE_ISSPACE_def)

lemma re_match_name_iff: "re_match_name U s \<longleftrightarrow> s \<noteq> [] \<and> list_all (name_class U) s"
proof
  assume "re_match_name U s"
  then obtain k where k: "1 \<le> k" "k \<le> length s"
    and cls: "list_all (name_class U) (take k s)" and dollar: "at_dollar s k"
    by (auto simp: re_match_name_def list_ex_iff)
  from k have ne: "s \<noteq> []" by auto
  show "s \<noteq> [] \<and> list_all (name_class U) s"
  proof (cases "k = length s")
    case True
    with cls ne show ?thesis by simp
  next
    case False
    with dollar have last: "Suc k = length s" "s ! k = 10"
      by (auto simp: at_dollar_def)
    then have "s = take k s @ [10]"
      by (metis lessI take_Suc_conv_app_nth take_all order_refl)
    then have "list_all (name_class U) s = list_all (name_class U) (take k s @ [10])"
      by simp
    with cls ne show ?thesis
      by (simp add: newline_in_class)
  qed
next
  assume a: "s \<noteq> [] \<and> list_all (name_class U) s"
  then have "length s \<in> set [1 ..< Suc (length s)]"
    by (cases s) auto
  moreover from a have "list_all (name_class U) (take (length s) s) \<and> at_dollar s (length s)"
    by (simp add: at_dollar_def)
  ultimately show "re_match_name U s"
    unfolding re_match_name_def list_ex_iff by blast
qed

lemma validate_ok_iff:
  "validate_activity_name U name = Inr () \<longleftrightarrow>
     1 \<le> length name \<and> length name \<le> 100 \<and> list_all (name_class U) name"
  by (auto simp: validate_activity_name_def re_match_name_iff)

lemma validate_cases:
  "validate_activity_name U name = Inr () \<or>
   validate_activity_name U name = Inl (HTTPException 400 (py ''Invalid activity name length'')) \<or>
   validate_activity_name U name = Inl (HTTPException 400 (py ''Activity name contains invalid characters''))"
  by (simp add: validate_activity_name_def)

subsection \<open>Outcomes of the two handlers, path by path\<close>

lemma user_email_of_nonempty: "user_email_of payload email = Some e \<Longrightarrow> e \<noteq> []"
  by (auto simp: user_email_of_def split: if_splits)

lemma user_email_of_body:
  "pe \<noteq> [] \<Longrightarrow> user_email_of (Some (SignupRequest pe)) email = Some pe"
  by (simp add: user_email_of_def)

lemma user_email_of_query:
  "payload = None \<or> payload = Some (SignupRequest []) \<Longrightarrow> qe \<noteq> [] \<Longrightarrow>
   user_email_of payload (Some qe) = Some qe"
  by (auto simp: user_email_of_def)

lemma user_email_of_none:
  "payload = None \<or> payload = Some (SignupRequest []) \<Longrightarrow> email = None \<or> email = Some [] \<Longrightarrow>
   user_email_of payload email = None"
  by (auto simp: user_email_of_def)

lemma signup_invalid_name:
  "validate_activity_name U n = Inl x \<Longrightarrow>
   signup_for_activity U acts n payload email = (Inl x, acts)"
  by (simp add: signup_for_activity_def)

lemma signup_missing_email:
  "validate_activity_name U n = Inr () \<Longrightarrow> user_email_of payload email = None \<Longrightarrow>
   signup_for_activity U acts n payload email = (Inl MissingEmail, acts)"
  by (simp add: signup_for_activity_def MissingEmail_def)

lemma signup_not_found:
  "validate_activity_name U n = Inr () \<Longrightarrow> user_email_of payload email = Some e \<Longrightarrow>
   acts n = None \<Longrightarrow>
   signup_for_activity U acts n payload email = (Inl ActivityNotFound, acts)"
  by (frule user_email_of_nonempty) (simp add: signup_for_activity_def ActivityNotFound_def)

lemma signup_already:
  assumes "validate_activity_name U n = Inr ()" and "user_email_of payload email = Some e"
    and "acts n = Some a" and "e \<in> set (get_participants a [])"
  shows "signup_for_activity U acts n payload email = (Inl AlreadySignedUp, acts)"
proof -
  from assms(4) obtain ps where ps: "participants a = Some ps" "e \<in> set ps"
    by (cases "participants a") (auto simp: get_participants_def)
  have "acts(n \<mapsto> a) = acts"
    using assms(3) by (rule map_upd_triv)
  with assms(1-3) ps user_email_of_nonempty [OF assms(2)] show ?thesis
    by (simp add: signup_for_activity_def setdefault_participants_def AlreadySignedUp_def)
qed

lemma signup_appends:
  assumes "validate_activity_name U n = Inr ()" and "user_email_of payload email = Some e"
    and "acts n = Some a" and "e \<notin> set (get_participants a [])"
  shows "signup_for_activity U acts n payload email =
           (Inr \<lparr> message = py ''Signed up '' @ e @ py '' for '' @ n \<rparr>,
            acts(n \<mapsto> a\<lparr>participants := Some (get_participants a [] @ [e])\<rparr>))"
  using assms user_email_of_nonempty [OF assms(2)]
  by (cases "participants a")
     (simp_all add: signup_for_activity_def setdefault_participants_def get_participants_def)

lemma signup_error_cases:
  assumes "fst (signup_for_activity U acts n payload email) = Inl x"
  shows "snd (signup_for_activity U acts n payload email) = acts \<and>
         (InvalidName x \<or> x = MissingEmail \<or> x = ActivityNotFound \<or> x = AlreadySignedUp)"
proof (cases "validate_activity_name U n")
  case (Inl y)
  with validate_cases [of U n] have "InvalidName y"
    by (auto simp: InvalidName_def)
  with Inl assms show ?thesis
    by (simp add: signup_invalid_name)
next
  case (Inr u)
  then have ok: "validate_activity_name U n = Inr ()" by simp
  show ?thesis
  proof (cases "user_email_of payload email")
    case None
    with ok assms show ?thesis by (simp add: signup_missing_email)
  next
    case (Some e)
    show ?thesis
    proof (cases "acts n")
      case None
      with ok Some assms show ?thesis by (simp add: signup_not_found)
    next
      case (Some a)
      show ?thesis
      proof (cases "e \<in> set (get_participants a [])")
        case True
        with ok \<open>user_email_of payload email = Some e\<close> Some assms show ?thesis
          by (simp add: signup_already)
      next
        case False
        with ok \<open>user_email_of payload email = Some e\<close> Some assms show ?thesis
          by (simp add: signup_appends)
      qed
    qed
  qed
qed

lemma unregister_invalid_name:
  "validate_activity_name U n = Inl x \<Longrightarrow>
   unregister_from_activity U acts n email = (Inl x, acts)"
  by (simp add: unregister_from_activity_def)

lemma unregister_not_found:
  "validate_activity_name U n = Inr () \<Longrightarrow> acts n = None \<Longrightarrow>
   unregister_from_activity U acts n email = (Inl ActivityNotFound, acts)"
  by (simp add: unregister_from_activity_def ActivityNotFound_def)

lemma unregister_not_signed_up:
  "validate_activity_name U n = Inr () \<Longrightarrow> acts n = Some a \<Longrightarrow>
   email \<notin> set (get_participants a []) \<Longrightarrow>
   unregister_from_activity U acts n email = (Inl NotSignedUp, acts)"
  by (simp add: unregister_from_activity_def NotSignedUp_def)

lemma unregister_removes:
  "validate_activity_name U n = Inr () \<Longrightarrow> acts n = Some a \<Longrightarrow>
   email \<in> set (get_participants a []) \<Longrightarrow>
   unregister_from_activity U acts n email =
     (Inr \<lparr> message = py ''Unregistered '' @ email @ py '' from '' @ n \<rparr>,
      acts(n \<mapsto> a\<lparr>participants := Some (remove1 email (get_participants a []))\<rparr>))"
  by (simp add: unregister_from_activity_def list_remove_def)

lemma unregister_error_cases:
  assumes "fst (unregister_from_activity U acts n email) = Inl x"
  shows "snd (unregister_from_activity U acts n email) = acts \<and>
         (InvalidName x \<or> x = ActivityNotFound \<or> x = NotSignedUp)"
proof (cases "validate_activity_name U n")
  case (Inl y)
  with validate_cases [of U n] have "InvalidName y"
    by (auto simp: InvalidName_def)
  with Inl assms show ?thesis
    by (simp add: unregister_invalid_name)
next
  case (Inr u)
  then have ok: "validate_activity_name U n = Inr ()" by simp
  show ?thesis
  proof (cases "acts n")
    case None
    with ok assms show ?thesis by (simp add: unregister_not_found)
  next
    case (Some a)
    with ok assms show ?thesis
      by (cases "email \<in> set (get_participants a [])")
         (simp_all add: unregister_not_signed_up unregister_removes)
  qed
qed

lemma remove1_first_occurrence:
  "x \<in> set xs \<Longrightarrow> \<exists>ys zs. xs = ys @ x # zs \<and> x \<notin> set ys \<and> remove1 x xs = ys @ zs"
proof (induction xs)
  case Nil
  then show ?case by simp
next
  case (Cons y xs)
  show ?case
  proof (cases "x = y")
    case True
    then have "y # xs = [] @ x # xs \<and> x \<notin> set [] \<and> remove1 x (y # xs) = [] @ xs"
      by simp
    then show ?thesis by blast
  next
    case False
    with Cons obtain ys zs where "xs = ys @ x # zs" "x \<notin> set ys" "remove1 x xs = ys @ zs"
      by auto
    with False have "y # xs = (y # ys) @ x # zs \<and> x \<notin> set (y # ys)
        \<and> remove1 x (y # xs) = (y # ys) @ zs"
      by auto
    then show ?thesis by blast
  qed
qed

subsection \<open>Concrete inputs\<close>

lemma py_eq_iff: "py s = py t \<longleftrightarrow> s = t"
  by (simp add: py_def inj_map_eq_map inj_on_def)

lemma py_append: "py s @ py t = py (s @ t)"
  by (simp add: py_def)

lemma ascii_name_class:
  "ch < 128 \<Longrightarrow> name_class U ch \<longleftrightarrow>
     (48 \<le> ch \<and> ch \<le> 57) \<or> (65 \<le> ch \<and> ch \<le> 90) \<or> (97 \<le> ch \<and> ch \<le> 122) \<or> ch = 95
     \<or> (9 \<le> ch \<and> ch \<le> 13) \<or> (28 \<le> ch \<and> ch \<le> 32) \<or> ch = 45 \<or> ch = 39"
  by (auto simp: name_class_def Py_UNICODE_ISALNUM_def Py_UNICODE_ISSPACE_def)

lemma chess_club_valid: "validate_activity_name U (py ''Chess Club'') = Inr ()"
  by (simp add: validate_ok_iff py_def ascii_name_class)

lemma chess_club_default:
  "default_activities (py ''Chess Club'') =
     Some \<lparr> description = py ''Learn strategies and compete in chess tournaments'',
            schedule = py ''Fridays, 3:30 PM - 5:00 PM'',
            max_participants = 12,
            participants = Some [py ''michael@mergington.edu'', py ''daniel@mergington.edu''] \<rparr>"
  by (simp add: default_activities_def py_eq_iff)

subsection \<open>Signing up\<close>

text \<open>
  C1. For an activity name that passes validation and is a key of the store, and a
  non-empty email that is not in the activity's participant sequence, signup returns the
  message \<open>Signed up <email> for <name>\<close> and leaves the store with that one roster
  changed: the email is appended, so the sequence is one longer, every earlier element
  is at its old position and the new email is last.
\<close>

theorem signup_appends_new_email:
  assumes "validate_activity_name U n = Inr ()"
    and "acts n = Some a" and "participants a = Some ps"
    and "e \<noteq> []" and "user_email_of payload email = Some e"
    and "e \<notin> set ps"
  shows "signup_for_activity U acts n payload email =
           (Inr \<lparr> message = py ''Signed up '' @ e @ py '' for '' @ n \<rparr>,
            acts(n \<mapsto> a\<lparr>participants := Some (ps @ [e])\<rparr>))
         \<and> length (ps @ [e]) = length ps + 1
         \<and> take (length ps) (ps @ [e]) = ps
         \<and> (\<forall>i < length ps. (ps @ [e]) ! i = ps ! i)
         \<and> last (ps @ [e]) = e"
proof -
  from assms(3,6) have "e \<notin> set (get_participants a [])" and "get_participants a [] = ps"
    by (simp_all add: get_participants_def)
  with signup_appends [where acts = acts and a = a, OF assms(1,5,2)] show ?thesis
    by (simp add: nth_append)
qed

theorem signup_appends_new_email_witness:
  "signup_for_activity latin1_db default_activities (py ''Chess Club'')
      None (Some (py ''new@mergington.edu'')) =
     (Inr \<lparr> message = py ''Signed up new@mergington.edu for Chess Club'' \<rparr>,
      default_activities(py ''Chess Club'' \<mapsto>
        \<lparr> description = py ''Learn strategies and compete in chess tournaments'',
          schedule = py ''Fridays, 3:30 PM - 5:00 PM'',
          max_participants = 12,
          participants = Some [py ''michael@mergington.edu'', py ''daniel@mergington.edu'',
                               py ''new@mergington.edu''] \<rparr>))"
proof -
  have u: "user_email_of None (Some (py ''new@mergington.edu'')) = Some (py ''new@mergington.edu'')"
    by (simp add: user_email_of_def py_def)
  have ne: "py ''new@mergington.edu'' \<noteq> []"
    by (simp add: py_def)
  have m: "py ''new@mergington.edu'' \<notin> set [py ''michael@mergington.edu'', py ''daniel@mergington.edu'']"
    by (simp add: py_eq_iff)
  show ?thesis
    using signup_appends_new_email [where U = latin1_db and acts = default_activities
        and ps = "[py ''michael@mergington.edu'', py ''daniel@mergington.edu'']",
        OF chess_club_valid chess_club_default _ ne u m]
    by (simp add: py_append)
qed

subsection \<open>Unregistering\<close>

text \<open>
  C2. For an activity name that passes validation and is a key of the store, with
  participant sequence \<open>ps\<close>: when the email occurs in \<open>ps\<close>, unregister returns the message
  \<open>Unregistered <email> from <name>\<close> and the roster loses the first occurrence of the
  email and nothing else (the elements before it and after it stay as they were, in
  order); when the email does not occur, unregister fails with \<open>NotSignedUp\<close> and the store
  is the one it was given.
\<close>

theorem unregister_removes_first_occurrence:
  assumes "validate_activity_name U n = Inr ()"
    and "acts n = Some a" and "participants a = Some ps"
  shows "(email \<in> set ps \<longrightarrow>
            unregister_from_activity U acts n email =
              (Inr \<lparr> message = py ''Unregistered '' @ email @ py '' from '' @ n \<rparr>,
               acts(n \<mapsto> a\<lparr>participants := Some (remove1 email ps)\<rparr>))
            \<and> (\<exists>ys zs. ps = ys @ email # zs \<and> email \<notin> set ys \<and> remove1 email ps = ys @ zs))
         \<and> (email \<notin> set ps \<longrightarrow>
            unregister_from_activity U acts n email = (Inl NotSignedUp, acts))"
proof -
  from assms(3) have roster: "get_participants a [] = ps"
    by (simp add: get_participants_def)
  have present: "email \<in> set ps \<Longrightarrow>
      unregister_from_activity U acts n email =
        (Inr \<lparr> message = py ''Unregistered '' @ email @ py '' from '' @ n \<rparr>,
         acts(n \<mapsto> a\<lparr>participants := Some (remove1 email ps)\<rparr>))"
    using unregister_removes [where acts = acts and a = a, OF assms(1,2)] roster by simp
  have absent: "email \<notin> set ps \<Longrightarrow>
      unregister_from_activity U acts n email = (Inl NotSignedUp, acts)"
    using unregister_not_signed_up [where acts = acts and a = a, OF assms(1,2)] roster by simp
  from present absent remove1_first_occurrence [of email ps] show ?thesis
    by blast
qed

theorem unregister_removes_first_occurrence_witness:
  "unregister_from_activity latin1_db default_activities (py ''Chess Club'')
      (py ''daniel@mergington.edu'') =
     (Inr \<lparr> message = py ''Unregistered daniel@mergington.edu from Chess Club'' \<rparr>,
      default_activities(py ''Chess Club'' \<mapsto>
        \<lparr> description = py ''Learn strategies and compete in chess tournaments'',
          schedule = py ''Fridays, 3:30 PM - 5:00 PM'',
          max_participants = 12,
          participants = Some [py ''michael@mergington.edu''] \<rparr>))
   \<and> unregister_from_activity latin1_db default_activities (py ''Chess Club'')
      (py ''nobody@mergington.edu'') = (Inl NotSignedUp, default_activities)"
proof -
  note inst = unregister_removes_first_occurrence [where U = latin1_db and acts = default_activities
      and ps = "[py ''michael@mergington.edu'', py ''daniel@mergington.edu'']",
      OF chess_club_valid chess_club_default]
  show ?thesis
    using inst [of "py ''daniel@mergington.edu''"] inst [of "py ''nobody@mergington.edu''"]
    by (simp add: py_append py_eq_iff)
qed

subsection \<open>Name validation\<close>

text \<open>
  C3, as stated: validation succeeds exactly for the names of 1 to 100 characters all
  in the set of ASCII letters, digits, underscore, whitespace, hyphen and apostrophe.
  It does not hold: the pattern's \<open>\w\<close> is the Unicode class, and the one-character name
  made of U+00E9 (e with acute accent, a letter outside ASCII) is accepted.
\<close>

theorem validate_ascii_only_counterexample:
  "\<not> (validate_activity_name latin1_db [233] = Inr () \<longleftrightarrow>
        1 \<le> length [233::nat] \<and> length [233::nat] \<le> 100
        \<and> list_all (spec_name_char latin1_db) [233])"
  by (simp add: validate_ok_iff name_class_def spec_name_char_def
      Py_UNICODE_ISALNUM_def Py_UNICODE_ISSPACE_def latin1_db_def)

text \<open>
  C3, amended. Validation succeeds exactly for the names of 1 to 100 code points whose
  every character is in that set or is a character outside ASCII that the Unicode
  database classes as alphanumeric; every other name fails with \<open>InvalidName\<close>.
  Validation takes the name only and returns its verdict only: it has no store to change.
\<close>

theorem validate_activity_name_unicode:
  "(validate_activity_name U name = Inr () \<longleftrightarrow>
      1 \<le> length name \<and> length name \<le> 100
      \<and> list_all (\<lambda>ch. spec_name_char U ch \<or> (128 \<le> ch \<and> isalnum U ch)) name)
   \<and> (validate_activity_name U name \<noteq> Inr () \<longrightarrow>
        (\<exists>e. validate_activity_name U name = Inl e \<and> InvalidName e))"
proof -
  have cls: "name_class U = (\<lambda>ch. spec_name_char U ch \<or> (128 \<le> ch \<and> isalnum U ch))"
    by (auto simp: fun_eq_iff name_class_def spec_name_char_def Py_UNICODE_ISALNUM_def)
  have "validate_activity_name U name = Inr () \<longleftrightarrow>
          1 \<le> length name \<and> length name \<le> 100
          \<and> list_all (\<lambda>ch. spec_name_char U ch \<or> (128 \<le> ch \<and> isalnum U ch)) name"
    by (simp add: validate_ok_iff cls)
  moreover have "validate_activity_name U name \<noteq> Inr () \<longrightarrow>
        (\<exists>e. validate_activity_name U name = Inl e \<and> InvalidName e)"
    using validate_cases [of U name] by (auto simp: InvalidName_def)
  ultimately show ?thesis by blast
qed

theorem validate_activity_name_unicode_witness:
  "validate_activity_name latin1_db [233] = Inr ()
   \<and> validate_activity_name latin1_db (py ''Chess Club'') = Inr ()
   \<and> (\<exists>e. validate_activity_name latin1_db (py ''Bad/Name!'') = Inl e \<and> InvalidName e)
   \<and> (\<exists>e. validate_activity_name latin1_db [] = Inl e \<and> InvalidName e)"
  using validate_activity_name_unicode [of latin1_db "[233]"]
    validate_activity_name_unicode [of latin1_db "py ''Chess Club''"]
    validate_activity_name_unicode [of latin1_db "py ''Bad/Name!''"]
    validate_activity_name_unicode [of latin1_db "[]"]
  by (simp add: spec_name_char_def Py_UNICODE_ISSPACE_def latin1_db_def py_def)

subsection \<open>Loading the store\<close>

text \<open>
  C4, as stated: when the activities file is absent, or reading or parsing it fails, the
  store starts as the three built-in activities. It does not hold for the second case:
  the \<open>except\<close> branch assigns the empty dictionary.
\<close>

theorem load_failure_defaults_counterexample:
  "load_activities (Some Raised) \<noteq> default_activities"
proof
  assume "load_activities (Some Raised) = default_activities"
  then have "load_activities (Some Raised) (py ''Chess Club'') = default_activities (py ''Chess Club'')"
    by simp
  then show False
    by (simp add: load_activities_def chess_club_default)
qed

text \<open>
  C4, amended. Initialisation always yields a store: the three built-in activities
  (Chess Club, Programming Class, Gym Class, with the schedules, capacities and seed
  participants of the source) when the file is absent, the empty store when the file is
  there and reading or parsing it raises, and the parsed mapping otherwise.
\<close>

theorem load_activities_cases:
  "load_activities None = default_activities
   \<and> load_activities (Some Raised) = Map.empty
   \<and> load_activities (Some (Returned loaded)) = loaded
   \<and> dom default_activities = {py ''Chess Club'', py ''Programming Class'', py ''Gym Class''}
   \<and> default_activities (py ''Chess Club'') =
       Some \<lparr> description = py ''Learn strategies and compete in chess tournaments'',
              schedule = py ''Fridays, 3:30 PM - 5:00 PM'',
              max_participants = 12,
              participants = Some [py ''michael@mergington.edu'', py ''daniel@mergington.edu''] \<rparr>
   \<and> default_activities (py ''Programming Class'') =
       Some \<lparr> description = py ''Learn programming fundamentals and build software projects'',
              schedule = py ''Tuesdays and Thursdays, 3:30 PM - 4:30 PM'',
              max_participants = 20,
              participants = Some [py ''emma@mergington.edu'', py ''sophia@mergington.edu''] \<rparr>
   \<and> default_activities (py ''Gym Class'') =
       Some \<lparr> description = py ''Physical education and sports activities'',
              schedule = py ''Mondays, Wednesdays, Fridays, 2:00 PM - 3:00 PM'',
              max_participants = 30,
              participants = Some [py ''john@mergington.edu'', py ''olivia@mergington.edu''] \<rparr>"
proof -
  have "dom default_activities = {py ''Chess Club'', py ''Programming Class'', py ''Gym Class''}"
    by (auto simp: default_activities_def)
  moreover have "default_activities (py ''Programming Class'') =
       Some \<lparr> description = py ''Learn programming fundamentals and build software projects'',
              schedule = py ''Tuesdays and Thursdays, 3:30 PM - 4:30 PM'',
              max_participants = 20,
              participants = Some [py ''emma@mergington.edu'', py ''sophia@mergington.edu''] \<rparr>"
    by (simp add: default_activities_def py_eq_iff)
  moreover have "default_activities (py ''Gym Class'') =
       Some \<lparr> description = py ''Physical education and sports activities'',
              schedule = py ''Mondays, Wednesdays, Fridays, 2:00 PM - 3:00 PM'',
              max_participants = 30,
              participants = Some [py ''john@mergington.edu'', py ''olivia@mergington.edu''] \<rparr>"
    by (simp add: default_activities_def py_eq_iff)
  ultimately show ?thesis
    by (simp add: load_activities_def chess_club_default)
qed

subsection \<open>Capacity\<close>

text \<open>
  C5. Signup does not look at \<open>max_participants\<close>: for an existing activity whose
  participant sequence is already as long as its capacity or longer, signing up a
  non-empty email that is not in the sequence still succeeds and appends the email,
  leaving the roster longer than the capacity.
\<close>

theorem signup_ignores_capacity:
  assumes "validate_activity_name U n = Inr ()"
    and "acts n = Some a" and "participants a = Some ps"
    and "max_participants a \<le> int (length ps)"
    and "e \<noteq> []" and "user_email_of payload email = Some e"
    and "e \<notin> set ps"
  shows "signup_for_activity U acts n payload email =
           (Inr \<lparr> message = py ''Signed up '' @ e @ py '' for '' @ n \<rparr>,
            acts(n \<mapsto> a\<lparr>participants := Some (ps @ [e])\<rparr>))
         \<and> max_participants a < int (length (ps @ [e]))"
proof -
  from assms(3,7) have "e \<notin> set (get_participants a [])" and "get_participants a [] = ps"
    by (simp_all add: get_participants_def)
  with signup_appends [where acts = acts and a = a, OF assms(1,6,2)] assms(4) show ?thesis
    by simp
qed

theorem signup_ignores_capacity_witness:
  "signup_for_activity latin1_db
      [py ''Chess Club'' \<mapsto>
         \<lparr> description = py ''Learn strategies and compete in chess tournaments'',
           schedule = py ''Fridays, 3:30 PM - 5:00 PM'',
           max_participants = 2,
           participants = Some [py ''michael@mergington.edu'', py ''daniel@mergington.edu''] \<rparr>]
      (py ''Chess Club'') None (Some (py ''new@mergington.edu'')) =
     (Inr \<lparr> message = py ''Signed up new@mergington.edu for Chess Club'' \<rparr>,
      [py ''Chess Club'' \<mapsto>
         \<lparr> description = py ''Learn strategies and compete in chess tournaments'',
           schedule = py ''Fridays, 3:30 PM - 5:00 PM'',
           max_participants = 2,
           participants = Some [py ''michael@mergington.edu'', py ''daniel@mergington.edu'',
                                py ''new@mergington.edu''] \<rparr>])"
proof -
  have u: "user_email_of None (Some (py ''new@mergington.edu'')) = Some (py ''new@mergington.edu'')"
    by (simp add: user_email_of_def py_def)
  have ne: "py ''new@mergington.edu'' \<noteq> []"
    by (simp add: py_def)
  have m: "py ''new@mergington.edu'' \<notin> set [py ''michael@mergington.edu'', py ''daniel@mergington.edu'']"
    by (simp add: py_eq_iff)
  show ?thesis
    using signup_ignores_capacity [where U = latin1_db
        and acts = "[py ''Chess Club'' \<mapsto>
         \<lparr> description = py ''Learn strategies and compete in chess tournaments'',
           schedule = py ''Fridays, 3:30 PM - 5:00 PM'',
           max_participants = 2,
           participants = Some [py ''michael@mergington.edu'', py ''daniel@mergington.edu''] \<rparr>]"
        and ps = "[py ''michael@mergington.edu'', py ''daniel@mergington.edu'']"
        and n = "py ''Chess Club''", OF chess_club_valid _ _ _ ne u m]
    by (simp add: py_append)
qed

subsection \<open>The two channels of the email\<close>

text \<open>
  C6. For a name that passes validation: when the body carries a non-empty email and
  the query parameter is non-empty too, the body's email is the one checked against the
  roster, appended and reported in the message; when the body is missing or its email
  is empty and the query parameter is non-empty, the query parameter is used; when
  neither gives a non-empty email, signup fails with \<open>MissingEmail\<close>, whether or not the
  activity exists (the check comes before the look-up). For a name that fails validation
  the result is the validation error whatever the emails are (the check comes after
  validation).
\<close>

theorem signup_email_channels:
  "(validate_activity_name U n = Inr () \<and> pe \<noteq> [] \<and> qe \<noteq> [] \<and> acts n = Some a
      \<and> pe \<notin> set (get_participants a []) \<longrightarrow>
      signup_for_activity U acts n (Some (SignupRequest pe)) (Some qe) =
        (Inr \<lparr> message = py ''Signed up '' @ pe @ py '' for '' @ n \<rparr>,
         acts(n \<mapsto> a\<lparr>participants := Some (get_participants a [] @ [pe])\<rparr>)))
   \<and> (validate_activity_name U n = Inr () \<and> pe \<noteq> [] \<and> qe \<noteq> [] \<and> acts n = Some a
      \<and> pe \<in> set (get_participants a []) \<longrightarrow>
      signup_for_activity U acts n (Some (SignupRequest pe)) (Some qe) =
        (Inl AlreadySignedUp, acts))
   \<and> (validate_activity_name U n = Inr () \<and> (payload = None \<or> payload = Some (SignupRequest []))
      \<and> qe \<noteq> [] \<and> acts n = Some a \<and> qe \<notin> set (get_participants a []) \<longrightarrow>
      signup_for_activity U acts n payload (Some qe) =
        (Inr \<lparr> message = py ''Signed up '' @ qe @ py '' for '' @ n \<rparr>,
         acts(n \<mapsto> a\<lparr>participants := Some (get_participants a [] @ [qe])\<rparr>)))
   \<and> (validate_activity_name U n = Inr () \<and> (payload = None \<or> payload = Some (SignupRequest []))
      \<and> (email = None \<or> email = Some []) \<longrightarrow>
      signup_for_activity U acts n payload email = (Inl MissingEmail, acts))
   \<and> (validate_activity_name U n = Inl x \<longrightarrow>
      signup_for_activity U acts n payload email = (Inl x, acts) \<and> x \<noteq> MissingEmail)"
proof -
  have body: "validate_activity_name U n = Inr () \<and> pe \<noteq> [] \<and> qe \<noteq> [] \<and> acts n = Some a
      \<and> pe \<notin> set (get_participants a []) \<longrightarrow>
      signup_for_activity U acts n (Some (SignupRequest pe)) (Some qe) =
        (Inr \<lparr> message = py ''Signed up '' @ pe @ py '' for '' @ n \<rparr>,
         acts(n \<mapsto> a\<lparr>participants := Some (get_participants a [] @ [pe])\<rparr>))"
    using signup_appends [where acts = acts and a = a and e = pe and U = U and n = n
        and payload = "Some (SignupRequest pe)" and email = "Some qe"]
    by (simp add: user_email_of_body)
  have body_dup: "validate_activity_name U n = Inr () \<and> pe \<noteq> [] \<and> qe \<noteq> [] \<and> acts n = Some a
      \<and> pe \<in> set (get_participants a []) \<longrightarrow>
      signup_for_activity U acts n (Some (SignupRequest pe)) (Some qe) =
        (Inl AlreadySignedUp, acts)"
    using signup_already [where acts = acts and a = a and e = pe and U = U and n = n
        and payload = "Some (SignupRequest pe)" and email = "Some qe"]
    by (simp add: user_email_of_body)
  have query: "validate_activity_name U n = Inr ()
      \<and> (payload = None \<or> payload = Some (SignupRequest []))
      \<and> qe \<noteq> [] \<and> acts n = Some a \<and> qe \<notin> set (get_participants a []) \<longrightarrow>
      signup_for_activity U acts n payload (Some qe) =
        (Inr \<lparr> message = py ''Signed up '' @ qe @ py '' for '' @ n \<rparr>,
         acts(n \<mapsto> a\<lparr>participants := Some (get_participants a [] @ [qe])\<rparr>))"
    using signup_appends [where acts = acts and a = a and e = qe and U = U and n = n
        and payload = payload and email = "Some qe"]
    by (auto simp: user_email_of_query)
  have missing: "validate_activity_name U n = Inr ()
      \<and> (payload = None \<or> payload = Some (SignupRequest []))
      \<and> (email = None \<or> email = Some []) \<longrightarrow>
      signup_for_activity U acts n payload email = (Inl MissingEmail, acts)"
    using signup_missing_email [of U n payload email acts]
    by (auto simp: user_email_of_none)
  have invalid: "validate_activity_name U n = Inl x \<longrightarrow>
      signup_for_activity U acts n payload email = (Inl x, acts) \<and> x \<noteq> MissingEmail"
    using validate_cases [of U n]
    by (auto simp: signup_invalid_name MissingEmail_def py_def)
  from body body_dup query missing invalid show ?thesis
    by blast
qed

theorem signup_email_channels_witness:
  "signup_for_activity latin1_db default_activities (py ''Chess Club'')
      (Some (SignupRequest (py ''body@mergington.edu''))) (Some (py ''query@mergington.edu'')) =
     (Inr \<lparr> message = py ''Signed up body@mergington.edu for Chess Club'' \<rparr>,
      default_activities(py ''Chess Club'' \<mapsto>
        \<lparr> description = py ''Learn strategies and compete in chess tournaments'',
          schedule = py ''Fridays, 3:30 PM - 5:00 PM'',
          max_participants = 12,
          participants = Some [py ''michael@mergington.edu'', py ''daniel@mergington.edu'',
                               py ''body@mergington.edu''] \<rparr>))
   \<and> signup_for_activity latin1_db default_activities (py ''Chess Club'')
      (Some (SignupRequest (py ''michael@mergington.edu''))) (Some (py ''query@mergington.edu'')) =
     (Inl AlreadySignedUp, default_activities)
   \<and> signup_for_activity latin1_db default_activities (py ''Chess Club'')
      None (Some (py ''query@mergington.edu'')) =
     (Inr \<lparr> message = py ''Signed up query@mergington.edu for Chess Club'' \<rparr>,
      default_activities(py ''Chess Club'' \<mapsto>
        \<lparr> description = py ''Learn strategies and compete in chess tournaments'',
          schedule = py ''Fridays, 3:30 PM - 5:00 PM'',
          max_participants = 12,
          participants = Some [py ''michael@mergington.edu'', py ''daniel@mergington.edu'',
                               py ''query@mergington.edu''] \<rparr>))
   \<and> signup_for_activity latin1_db default_activities (py ''No Such Club'') None (Some []) =
     (Inl MissingEmail, default_activities)
   \<and> signup_for_activity latin1_db default_activities (py ''Bad/Name!'') None None =
     (Inl (HTTPException 400 (py ''Activity name contains invalid characters'')), default_activities)"
proof -
  have bad: "validate_activity_name latin1_db (py ''Bad/Name!'') =
      Inl (HTTPException 400 (py ''Activity name contains invalid characters''))"
    by (simp add: validate_activity_name_def re_match_name_iff py_def ascii_name_class)
  have other: "validate_activity_name latin1_db (py ''No Such Club'') = Inr ()"
    by (simp add: validate_ok_iff py_def ascii_name_class)
  have roster: "get_participants \<lparr> description = py ''Learn strategies and compete in chess tournaments'',
          schedule = py ''Fridays, 3:30 PM - 5:00 PM'',
          max_participants = 12,
          participants = Some [py ''michael@mergington.edu'', py ''daniel@mergington.edu''] \<rparr> []
      = [py ''michael@mergington.edu'', py ''daniel@mergington.edu'']"
    by (simp add: get_participants_def)
  have ne: "py ''body@mergington.edu'' \<noteq> []" "py ''query@mergington.edu'' \<noteq> []"
      "py ''michael@mergington.edu'' \<noteq> []"
    by (simp_all add: py_def)
  note inst = signup_email_channels [where U = latin1_db and acts = default_activities
      and a = "the (default_activities (py ''Chess Club''))"]
  show ?thesis
    using inst [where n = "py ''Chess Club''" and pe = "py ''body@mergington.edu''"
        and qe = "py ''query@mergington.edu''" and payload = None]
      inst [where n = "py ''Chess Club''" and pe = "py ''michael@mergington.edu''"
        and qe = "py ''query@mergington.edu''"]
      inst [where n = "py ''No Such Club''" and payload = None and email = "Some []"]
      inst [where n = "py ''Bad/Name!''" and payload = None and email = None]
    by (simp add: chess_club_valid chess_club_default bad other roster ne py_eq_iff py_append)
qed

subsection \<open>Failures\<close>

text \<open>
  C7. Whenever signup raises, the store is the one it was given and the error is one of
  \<open>InvalidName\<close>, \<open>MissingEmail\<close>, \<open>ActivityNotFound\<close>, \<open>AlreadySignedUp\<close>; whenever unregister
  raises, the store is the one it was given and the error is one of \<open>InvalidName\<close>,
  \<open>ActivityNotFound\<close>, \<open>NotSignedUp\<close>. In particular, with a valid name and a non-empty
  email supplied, signup fails with \<open>AlreadySignedUp\<close> when the email is in the roster and
  with \<open>ActivityNotFound\<close> when the name is not a key of the store.
\<close>

theorem errors_leave_store_unchanged:
  "(fst (signup_for_activity U acts n payload email) = Inl x \<longrightarrow>
      snd (signup_for_activity U acts n payload email) = acts
      \<and> (InvalidName x \<or> x = MissingEmail \<or> x = ActivityNotFound \<or> x = AlreadySignedUp))
   \<and> (fst (unregister_from_activity U acts n email') = Inl y \<longrightarrow>
      snd (unregister_from_activity U acts n email') = acts
      \<and> (InvalidName y \<or> y = ActivityNotFound \<or> y = NotSignedUp))
   \<and> (validate_activity_name U n = Inr () \<and> user_email_of payload email = Some e
      \<and> acts n = Some a \<and> e \<in> set (get_participants a []) \<longrightarrow>
      signup_for_activity U acts n payload email = (Inl AlreadySignedUp, acts))
   \<and> (validate_activity_name U n = Inr () \<and> user_email_of payload email = Some e
      \<and> acts n = None \<longrightarrow>
      signup_for_activity U acts n payload email = (Inl ActivityNotFound, acts))"
proof -
  have dup: "validate_activity_name U n = Inr () \<and> user_email_of payload email = Some e
      \<and> acts n = Some a \<and> e \<in> set (get_participants a []) \<longrightarrow>
      signup_for_activity U acts n payload email = (Inl AlreadySignedUp, acts)"
    using signup_already [where acts = acts and a = a and e = e and U = U and n = n
        and payload = payload and email = email]
    by simp
  have unknown: "validate_activity_name U n = Inr () \<and> user_email_of payload email = Some e
      \<and> acts n = None \<longrightarrow>
      signup_for_activity U acts n payload email = (Inl ActivityNotFound, acts)"
    using signup_not_found [where acts = acts and e = e and U = U and n = n
        and payload = payload and email = email]
    by simp
  from signup_error_cases [of U acts n payload email x]
    unregister_error_cases [of U acts n email' y] dup unknown
  show ?thesis by blast
qed

theorem errors_leave_store_unchanged_witness:
  "signup_for_activity latin1_db default_activities (py ''Chess Club'')
      None (Some (py ''michael@mergington.edu'')) = (Inl AlreadySignedUp, default_activities)
   \<and> signup_for_activity latin1_db default_activities (py ''No Such Club'')
      None (Some (py ''michael@mergington.edu'')) = (Inl ActivityNotFound, default_activities)
   \<and> snd (unregister_from_activity latin1_db default_activities (py ''Chess Club'')
        (py ''nobody@mergington.edu'')) = default_activities
   \<and> snd (signup_for_activity latin1_db default_activities (py ''Bad/Name!'')
        None (Some (py ''michael@mergington.edu''))) = default_activities"
proof -
  have bad: "validate_activity_name latin1_db (py ''Bad/Name!'') =
      Inl (HTTPException 400 (py ''Activity name contains invalid characters''))"
    by (simp add: validate_activity_name_def re_match_name_iff py_def ascii_name_class)
  have other: "validate_activity_name latin1_db (py ''No Such Club'') = Inr ()"
    by (simp add: validate_ok_iff py_def ascii_name_class)
  have absent: "default_activities (py ''No Such Club'') = None"
    by (simp add: default_activities_def py_eq_iff)
  have u: "user_email_of None (Some (py ''michael@mergington.edu'')) = Some (py ''michael@mergington.edu'')"
    by (simp add: user_email_of_def py_def)
  have f1: "fst (signup_for_activity latin1_db default_activities (py ''Bad/Name!'')
        None (Some (py ''michael@mergington.edu''))) =
      Inl (HTTPException 400 (py ''Activity name contains invalid characters''))"
    by (simp add: signup_invalid_name [OF bad])
  have f2: "fst (unregister_from_activity latin1_db default_activities (py ''Chess Club'')
        (py ''nobody@mergington.edu'')) = Inl NotSignedUp"
    using unregister_not_signed_up [where U = latin1_db and acts = default_activities
        and n = "py ''Chess Club''" and email = "py ''nobody@mergington.edu''",
        OF chess_club_valid chess_club_default]
    by (simp add: get_participants_def py_eq_iff)
  note inst = errors_leave_store_unchanged [where U = latin1_db and acts = default_activities
      and payload = None and email = "Some (py ''michael@mergington.edu'')"
      and e = "py ''michael@mergington.edu''"
      and a = "the (default_activities (py ''Chess Club''))"]
  show ?thesis
    using inst [where n = "py ''Chess Club''" and email' = "py ''nobody@mergington.edu''"
        and y = NotSignedUp]
      inst [where n = "py ''No Such Club''"]
      inst [where n = "py ''Bad/Name!''"
        and x = "HTTPException 400 (py ''Activity name contains invalid characters'')"]
    by (simp add: chess_club_valid chess_club_default other absent u f1 f2
        get_participants_def py_eq_iff)
qed

subsection \<open>The no-duplicates invariant\<close>

lemma signup_outcomes:
  "(\<exists>x. signup_for_activity U acts n payload email = (Inl x, acts))
   \<or> (\<exists>a e r. acts n = Some a \<and> e \<notin> set (get_participants a [])
        \<and> signup_for_activity U acts n payload email =
            (Inr r, acts(n \<mapsto> a\<lparr>participants := Some (get_participants a [] @ [e])\<rparr>)))"
proof (cases "fst (signup_for_activity U acts n payload email)")
  case (Inl x)
  with signup_error_cases [OF Inl] show ?thesis
    by (metis prod.collapse)
next
  case (Inr r)
  have ok: "validate_activity_name U n = Inr ()"
    using Inr signup_invalid_name [of U n _ acts payload email]
    by (cases "validate_activity_name U n") auto
  from Inr ok obtain e where e: "user_email_of payload email = Some e"
    using signup_missing_email [of U n payload email acts]
    by (cases "user_email_of payload email") auto
  from Inr ok e obtain a where a: "acts n = Some a"
    using signup_not_found [where acts = acts and U = U and n = n, OF ok e]
    by (cases "acts n") auto
  have "e \<notin> set (get_participants a [])"
    using Inr signup_already [where acts = acts and a = a, OF ok e a] by auto
  with signup_appends [where acts = acts and a = a, OF ok e a] a show ?thesis
    by blast
qed

lemma unregister_outcomes:
  "(\<exists>x. unregister_from_activity U acts n email = (Inl x, acts))
   \<or> (\<exists>a r. acts n = Some a \<and> email \<in> set (get_participants a [])
        \<and> unregister_from_activity U acts n email =
            (Inr r, acts(n \<mapsto> a\<lparr>participants := Some (remove1 email (get_participants a []))\<rparr>)))"
proof (cases "fst (unregister_from_activity U acts n email)")
  case (Inl x)
  with unregister_error_cases [OF Inl] show ?thesis
    by (metis prod.collapse)
next
  case (Inr r)
  have ok: "validate_activity_name U n = Inr ()"
    using Inr unregister_invalid_name [of U n _ acts email]
    by (cases "validate_activity_name U n") auto
  from Inr ok obtain a where a: "acts n = Some a"
    using unregister_not_found [where acts = acts and U = U and n = n, OF ok]
    by (cases "acts n") auto
  have "email \<in> set (get_participants a [])"
    using Inr unregister_not_signed_up [where acts = acts and a = a and email = email, OF ok a]
    by (cases "email \<in> set (get_participants a [])") simp_all
  with unregister_removes [where acts = acts and a = a and email = email, OF ok a] a show ?thesis
    by blast
qed

lemma no_duplicates_roster:
  "no_duplicates acts \<Longrightarrow> acts n = Some a \<Longrightarrow> distinct (get_participants a [])"
  by (cases "participants a") (auto simp: no_duplicates_def get_participants_def)

lemma no_duplicates_update:
  "no_duplicates acts \<Longrightarrow> distinct ps \<Longrightarrow>
   no_duplicates (acts(n \<mapsto> a\<lparr>participants := Some ps\<rparr>))"
  by (auto simp: no_duplicates_def)

lemma no_duplicates_default: "no_duplicates default_activities"
  by (auto simp: no_duplicates_def default_activities_def py_eq_iff split: if_splits)

text \<open>
  C8. If no roster of the store holds an email twice, then none does in the store that
  signup leaves, and none does in the store that unregister leaves, whether the call
  succeeds or raises.
\<close>

theorem no_duplicates_preserved:
  assumes "no_duplicates acts"
  shows "no_duplicates (snd (signup_for_activity U acts n payload email))
         \<and> no_duplicates (snd (unregister_from_activity U acts n email'))"
proof
  from signup_outcomes [of U acts n payload email]
  show "no_duplicates (snd (signup_for_activity U acts n payload email))"
  proof (elim disjE exE conjE)
    fix x assume "signup_for_activity U acts n payload email = (Inl x, acts)"
    with assms show ?thesis by simp
  next
    fix a e r
    assume a: "acts n = Some a" and e: "e \<notin> set (get_participants a [])"
      and res: "signup_for_activity U acts n payload email =
        (Inr r, acts(n \<mapsto> a\<lparr>participants := Some (get_participants a [] @ [e])\<rparr>))"
    from no_duplicates_roster [OF assms a] e have "distinct (get_participants a [] @ [e])"
      by simp
    with assms res show ?thesis
      by (simp add: no_duplicates_update)
  qed
next
  from unregister_outcomes [of U acts n email']
  show "no_duplicates (snd (unregister_from_activity U acts n email'))"
  proof (elim disjE exE conjE)
    fix x assume "unregister_from_activity U acts n email' = (Inl x, acts)"
    with assms show ?thesis by simp
  next
    fix a r
    assume a: "acts n = Some a"
      and res: "unregister_from_activity U acts n email' =
        (Inr r, acts(n \<mapsto> a\<lparr>participants := Some (remove1 email' (get_participants a []))\<rparr>))"
    from no_duplicates_roster [OF assms a]
    have "distinct (remove1 email' (get_participants a []))"
      by simp
    with assms res show ?thesis
      by (simp add: no_duplicates_update)
  qed
qed

theorem no_duplicates_preserved_witness:
  "no_duplicates default_activities
   \<and> no_duplicates (snd (signup_for_activity latin1_db default_activities (py ''Chess Club'')
        None (Some (py ''new@mergington.edu''))))
   \<and> no_duplicates (snd (unregister_from_activity latin1_db default_activities (py ''Chess Club'')
        (py ''daniel@mergington.edu'')))"
  using no_duplicates_preserved [OF no_duplicates_default, of latin1_db "py ''Chess Club''"
      None "Some (py ''new@mergington.edu'')" "py ''daniel@mergington.edu''"]
  by (simp add: no_duplicates_default)

subsection \<open>Repeating a failed call\<close>

text \<open>
  C9. If signup raises, the store it leaves is the store it was given, and the same call
  on that store raises the same error and leaves the same store; likewise for
  unregister.
\<close>

theorem failure_is_idempotent:
  "(signup_for_activity U acts n payload email = (Inl x, acts') \<longrightarrow>
      acts' = acts \<and> signup_for_activity U acts' n payload email = (Inl x, acts'))
   \<and> (unregister_from_activity U acts n email' = (Inl y, acts'') \<longrightarrow>
      acts'' = acts \<and> unregister_from_activity U acts'' n email' = (Inl y, acts''))"
  using signup_error_cases [of U acts n payload email x]
    unregister_error_cases [of U acts n email' y]
  by auto

theorem failure_is_idempotent_witness:
  "signup_for_activity latin1_db default_activities (py ''Chess Club'')
      None (Some (py ''michael@mergington.edu'')) = (Inl AlreadySignedUp, default_activities)
   \<and> signup_for_activity latin1_db
        (snd (signup_for_activity latin1_db default_activities (py ''Chess Club'')
           None (Some (py ''michael@mergington.edu''))))
        (py ''Chess Club'') None (Some (py ''michael@mergington.edu'')) =
       (Inl AlreadySignedUp, default_activities)
   \<and> unregister_from_activity latin1_db default_activities (py ''Chess Club'')
        (py ''nobody@mergington.edu'') = (Inl NotSignedUp, default_activities)
   \<and> unregister_from_activity latin1_db
        (snd (unregister_from_activity latin1_db default_activities (py ''Chess Club'')
           (py ''nobody@mergington.edu'')))
        (py ''Chess Club'') (py ''nobody@mergington.edu'') = (Inl NotSignedUp, default_activities)"
proof -
  have u: "user_email_of None (Some (py ''michael@mergington.edu'')) = Some (py ''michael@mergington.edu'')"
    by (simp add: user_email_of_def py_def)
  have s: "signup_for_activity latin1_db default_activities (py ''Chess Club'')
      None (Some (py ''michael@mergington.edu'')) = (Inl AlreadySignedUp, default_activities)"
    using signup_already [where U = latin1_db and acts = default_activities
        and n = "py ''Chess Club''", OF chess_club_valid u chess_club_default]
    by (simp add: get_participants_def)
  have r: "unregister_from_activity latin1_db default_activities (py ''Chess Club'')
        (py ''nobody@mergington.edu'') = (Inl NotSignedUp, default_activities)"
    using unregister_not_signed_up [where U = latin1_db and acts = default_activities
        and n = "py ''Chess Club''" and email = "py ''nobody@mergington.edu''",
        OF chess_club_valid chess_club_default]
    by (simp add: get_participants_def py_eq_iff)
  show ?thesis
    using failure_is_idempotent [of latin1_db default_activities "py ''Chess Club''"
        None "Some (py ''michael@mergington.edu'')" AlreadySignedUp default_activities
        "py ''nobody@mergington.edu''" NotSignedUp default_activities] s r
    by simp
qed

subsection \<open>A record without the participants key\<close>

text \<open>
  C10. For an activity that is in the store under a valid name and has no
  \<open>participants\<close> key: \<open>setdefault\<close> stores the empty list under the key and hands it
  back, so signup of any non-empty email finds the roster empty, succeeds and leaves the
  record with the one-element roster; \<open>get\<close> hands back an empty list without storing
  it, so unregister fails with \<open>NotSignedUp\<close> for every email and leaves the record
  without the key.
\<close>

theorem missing_participants_key:
  assumes "validate_activity_name U n = Inr ()"
    and "acts n = Some a" and "participants a = None"
  shows "setdefault_participants a [] = (a\<lparr>participants := Some []\<rparr>, [])
         \<and> (user_email_of payload email = Some e \<longrightarrow>
              signup_for_activity U acts n payload email =
                (Inr \<lparr> message = py ''Signed up '' @ e @ py '' for '' @ n \<rparr>,
                 acts(n \<mapsto> a\<lparr>participants := Some [e]\<rparr>)))
         \<and> unregister_from_activity U acts n email' = (Inl NotSignedUp, acts)
         \<and> snd (unregister_from_activity U acts n email') n = Some a"
proof -
  from assms(3) have roster: "get_participants a [] = []"
    by (simp add: get_participants_def)
  have "user_email_of payload email = Some e \<longrightarrow>
      signup_for_activity U acts n payload email =
        (Inr \<lparr> message = py ''Signed up '' @ e @ py '' for '' @ n \<rparr>,
         acts(n \<mapsto> a\<lparr>participants := Some [e]\<rparr>))"
    using signup_appends [where acts = acts and a = a and e = e and payload = payload
        and email = email, OF assms(1) _ assms(2)] roster
    by simp
  moreover have "unregister_from_activity U acts n email' = (Inl NotSignedUp, acts)"
    using unregister_not_signed_up [where acts = acts and a = a and email = email',
        OF assms(1,2)] roster
    by simp
  ultimately show ?thesis
    using assms(2,3) by (simp add: setdefault_participants_def)
qed

theorem missing_participants_key_witness:
  "signup_for_activity latin1_db
      [py ''Chess Club'' \<mapsto>
         \<lparr> description = py ''Learn strategies and compete in chess tournaments'',
           schedule = py ''Fridays, 3:30 PM - 5:00 PM'',
           max_participants = 12, participants = None \<rparr>]
      (py ''Chess Club'') None (Some (py ''new@mergington.edu'')) =
     (Inr \<lparr> message = py ''Signed up new@mergington.edu for Chess Club'' \<rparr>,
      [py ''Chess Club'' \<mapsto>
         \<lparr> description = py ''Learn strategies and compete in chess tournaments'',
           schedule = py ''Fridays, 3:30 PM - 5:00 PM'',
           max_participants = 12, participants = Some [py ''new@mergington.edu''] \<rparr>])
   \<and> unregister_from_activity latin1_db
      [py ''Chess Club'' \<mapsto>
         \<lparr> description = py ''Learn strategies and compete in chess tournaments'',
           schedule = py ''Fridays, 3:30 PM - 5:00 PM'',
           max_participants = 12, participants = None \<rparr>]
      (py ''Chess Club'') (py ''new@mergington.edu'') =
     (Inl NotSignedUp,
      [py ''Chess Club'' \<mapsto>
         \<lparr> description = py ''Learn strategies and compete in chess tournaments'',
           schedule = py ''Fridays, 3:30 PM - 5:00 PM'',
           max_participants = 12, participants = None \<rparr>])"
proof -
  have u: "user_email_of None (Some (py ''new@mergington.edu'')) = Some (py ''new@mergington.edu'')"
    by (simp add: user_email_of_def py_def)
  show ?thesis
    using missing_participants_key [where U = latin1_db and n = "py ''Chess Club''"
        and acts = "[py ''Chess Club'' \<mapsto>
         \<lparr> description = py ''Learn strategies and compete in chess tournaments'',
           schedule = py ''Fridays, 3:30 PM - 5:00 PM'',
           max_participants = 12, participants = None \<rparr>]"
        and payload = None and email = "Some (py ''new@mergington.edu'')"
        and e = "py ''new@mergington.edu''" and email' = "py ''new@mergington.edu''",
        OF chess_club_valid]
    by (simp add: u py_append)
qed

end
